theory Spec2Isabelle
  imports Complex_Main
begin

section \<open>JavaScript numbers used as indices\<close>

text \<open>
  The carousel of \<^verbatim>\<open>src/js/main.js\<close> computes its indices with JavaScript numbers.
  Integer values are modelled by \<open>Num\<close>; the one non-integer value the carousel itself
  can produce is \<open>NaN\<close> (the remainder by a zero card count). Fractional values and
  infinities are not modelled.
\<close>

datatype jsnum = Num int | NaN

text \<open>\<^verbatim>\<open>a < b\<close> and \<^verbatim>\<open>a >= b\<close>: every comparison with NaN is false.\<close>

fun js_lt :: "jsnum \<Rightarrow> jsnum \<Rightarrow> bool" where
  "js_lt (Num a) (Num b) = (a < b)"
| "js_lt _ _ = False"

fun js_ge :: "jsnum \<Rightarrow> jsnum \<Rightarrow> bool" where
  "js_ge (Num a) (Num b) = (a \<ge> b)"
| "js_ge _ _ = False"

fun js_add :: "jsnum \<Rightarrow> jsnum \<Rightarrow> jsnum" where
  "js_add (Num a) (Num b) = Num (a + b)"
| "js_add _ _ = NaN"

fun js_sub :: "jsnum \<Rightarrow> jsnum \<Rightarrow> jsnum" where
  "js_sub (Num a) (Num b) = Num (a - b)"
| "js_sub _ _ = NaN"

text \<open>
  \<^verbatim>\<open>a % b\<close>: NaN when the divisor is zero, otherwise the remainder of the truncating
  division, which takes the sign of the dividend.
\<close>

fun js_rem :: "jsnum \<Rightarrow> jsnum \<Rightarrow> jsnum" where
  "js_rem (Num a) (Num b) =
     (if b = 0 then NaN
      else Num (if a < 0 then - ((- a) mod \<bar>b\<bar>) else a mod \<bar>b\<bar>))"
| "js_rem _ _ = NaN"

section \<open>The carousel and the part of the page it touches\<close>

text \<open>
  One record holds the fields of a \<^verbatim>\<open>TestimonialsCarousel\<close> instance together with what
  its methods read and write outside the instance:
  \<^item> \<open>container\<close>, \<open>prevBtn\<close>, \<open>nextBtn\<close>: whether the \<^verbatim>\<open>querySelector\<close> of the constructor
    found the element;
  \<^item> \<open>cards\<close>, \<open>dots\<close>: the two node lists, each element reduced to whether its class list
    holds \<^verbatim>\<open>'active'\<close>. They come from two separate queries and may differ in length;
  \<^item> \<open>currentIndex\<close>, \<open>isAutoplay\<close>, \<open>autoplayTimer\<close>: the instance fields
    (\<open>None\<close> is \<^verbatim>\<open>null\<close>);
  \<^item> \<open>listening\<close>: whether \<^verbatim>\<open>setupEventListeners\<close> has attached the DOM listeners;
  \<^item> \<open>intervals\<close>: the handles of the interval timers created by \<^verbatim>\<open>setInterval\<close> and not
    yet cleared; \<open>nextId\<close>: the handle the next \<^verbatim>\<open>setInterval\<close> returns;
  \<^item> \<open>windowTestimonialsCarousel\<close>: whether \<^verbatim>\<open>window.testimonialsCarousel\<close> refers to the
    instance (otherwise it is undefined);
  \<^item> \<open>renders\<close>: a trace, not a field of the source: the index of every run of the body
    of \<^verbatim>\<open>showTestimonial\<close> past its range guard, oldest first.
\<close>

record page =
  container :: bool
  prevBtn :: bool
  nextBtn :: bool
  cards :: "bool list"
  dots :: "bool list"
  currentIndex :: jsnum
  isAutoplay :: bool
  autoplayTimer :: "nat option"
  listening :: bool
  intervals :: "nat list"
  nextId :: nat
  windowTestimonialsCarousel :: bool
  renders :: "jsnum list"

text \<open>\<^verbatim>\<open>list.forEach(el => el.classList.remove('active'))\<close>\<close>

definition remove_active :: "bool list \<Rightarrow> bool list" where
  "remove_active xs = map (\<lambda>_. False) xs"

text \<open>
  \<^verbatim>\<open>if (list[index]) list[index].classList.add('active')\<close>: the element exists only
  for an integer index inside the list.
\<close>

fun add_active :: "jsnum \<Rightarrow> bool list \<Rightarrow> bool list" where
  "add_active (Num i) xs = (if 0 \<le> i \<and> i < int (length xs) then xs[nat i := True] else xs)"
| "add_active NaN xs = xs"

text \<open>The positions of a node list that carry the active mark.\<close>

definition active_indices :: "bool list \<Rightarrow> nat list" where
  "active_indices xs = filter (\<lambda>k. xs ! k) [0..<length xs]"

subsection \<open>Autoplay timer\<close>

definition startAutoplay :: "page \<Rightarrow> page" where
  "startAutoplay s =
     (if \<not> isAutoplay s then s
      else s\<lparr>autoplayTimer := Some (nextId s),
             intervals := intervals s @ [nextId s],
             nextId := nextId s + 1\<rparr>)"

text \<open>\<^verbatim>\<open>if (this.autoplayTimer)\<close> is false for \<^verbatim>\<open>null\<close> and for the number 0.\<close>

definition pauseAutoplay :: "page \<Rightarrow> page" where
  "pauseAutoplay s =
     (case autoplayTimer s of
        None \<Rightarrow> s
      | Some h \<Rightarrow>
          if h = 0 then s
          else s\<lparr>intervals := removeAll h (intervals s), autoplayTimer := None\<rparr>)"

definition resetAutoplay :: "page \<Rightarrow> page" where
  "resetAutoplay s = startAutoplay (pauseAutoplay s)"

subsection \<open>Rendering and navigation\<close>

definition showTestimonial :: "jsnum \<Rightarrow> page \<Rightarrow> page" where
  "showTestimonial index s =
     (if js_lt index (Num 0) \<or> js_ge index (Num (int (length (cards s)))) then s
      else s\<lparr>cards := add_active index (remove_active (cards s)),
             dots := add_active index (remove_active (dots s)),
             currentIndex := index,
             renders := renders s @ [index]\<rparr>)"

definition nextTestimonial :: "page \<Rightarrow> page" where
  "nextTestimonial s =
     (let nextIndex = js_rem (js_add (currentIndex s) (Num 1)) (Num (int (length (cards s))))
      in resetAutoplay (showTestimonial nextIndex s))"

definition previousTestimonial :: "page \<Rightarrow> page" where
  "previousTestimonial s =
     (let prevIndex =
            js_rem (js_add (js_sub (currentIndex s) (Num 1)) (Num (int (length (cards s)))))
                   (Num (int (length (cards s))))
      in resetAutoplay (showTestimonial prevIndex s))"

definition goToTestimonial :: "jsnum \<Rightarrow> page \<Rightarrow> page" where
  "goToTestimonial index s = resetAutoplay (showTestimonial index s)"

subsection \<open>Swipe gesture handling\<close>

text \<open>
  The touch coordinates (\<^verbatim>\<open>clientX\<close>) are finite doubles, modelled by the real numbers
  they denote. Comparison and \<^verbatim>\<open>Math.abs\<close> are exact on doubles; the subtraction
  \<^verbatim>\<open>startX - endX\<close> is not: its result is the exact difference rounded to the nearest
  double, ties to the even significand.

  \<open>bit_length n\<close> is the number of binary digits of the integer \<open>n > 0\<close>, and \<open>binade a\<close>, for
  \<open>a > 0\<close>, the exponent \<open>e\<close> with \<^verbatim>\<open>2^e <= a < 2^(e+1)\<close>. A double in that binade is a
  multiple of \<^verbatim>\<open>2^(e-52)\<close>, so \<open>double_round\<close> scales by \<^verbatim>\<open>2^(52-e)\<close>, rounds to an
  integer and scales back. The exponent range of doubles is not modelled (results below
  \<^verbatim>\<open>2^-1022\<close> in magnitude, or beyond the largest double); such results lie on the same
  side of the threshold of \<^verbatim>\<open>handleSwipe\<close> as their rounded values.
\<close>

function bit_length :: "int \<Rightarrow> nat" where
  "bit_length n = (if n \<le> 0 then 0 else Suc (bit_length (n div 2)))"
  by pat_completeness auto
termination
  by (relation "measure nat") auto

declare bit_length.simps [simp del]

definition binade :: "real \<Rightarrow> int" where
  "binade a = (if 1 \<le> a then int (bit_length \<lfloor>a\<rfloor>) - 1
               else - int (bit_length (\<lceil>1 / a\<rceil> - 1)))"

definition pow2 :: "int \<Rightarrow> real" where
  "pow2 k = (if 0 \<le> k then 2 ^ nat k else 1 / 2 ^ nat (- k))"

definition round_half_even :: "real \<Rightarrow> int" where
  "round_half_even r =
     (let f = \<lfloor>r\<rfloor>; d = r - of_int f
      in if d < 1 / 2 then f
         else if 1 / 2 < d then f + 1
         else if even f then f else f + 1)"

definition double_round :: "real \<Rightarrow> real" where
  "double_round x =
     (if x = 0 then 0
      else let q = pow2 (52 - binade \<bar>x\<bar>)
           in sgn x * of_int (round_half_even (\<bar>x\<bar> * q)) / q)"

text \<open>\<^verbatim>\<open>x - y\<close> on doubles.\<close>

definition double_sub :: "real \<Rightarrow> real \<Rightarrow> real" where
  "double_sub x y = double_round (x - y)"

text \<open>The threshold is the constant of the source.\<close>

definition handleSwipe :: "real \<Rightarrow> real \<Rightarrow> page \<Rightarrow> page" where
  "handleSwipe startX endX s =
     (let threshold = 50; diff = double_sub startX endX
      in if \<bar>diff\<bar> > threshold
         then (if diff > 0 then nextTestimonial s else previousTestimonial s)
         else s)"

subsection \<open>Construction\<close>

definition setupEventListeners :: "page \<Rightarrow> page" where
  "setupEventListeners s = s\<lparr>listening := True\<rparr>"

definition init :: "page \<Rightarrow> page" where
  "init s =
     (if \<not> container s \<or> length (cards s) = 0 then s
      else showTestimonial (Num 0) (startAutoplay (setupEventListeners s)))"

text \<open>
  \<^verbatim>\<open>new TestimonialsCarousel()\<close> on a page whose queries give the arguments: the slider
  container, the two buttons, the cards and dots with their initial marks, and
  \<^verbatim>\<open>CONFIG.testimonialAutoplay\<close>. No interval timer exists yet; handles start at 1.
\<close>

definition TestimonialsCarousel ::
  "bool \<Rightarrow> bool \<Rightarrow> bool \<Rightarrow> bool list \<Rightarrow> bool list \<Rightarrow> bool \<Rightarrow> page" where
  "TestimonialsCarousel c p n cs ds autoplay =
     init \<lparr>container = c, prevBtn = p, nextBtn = n, cards = cs, dots = ds,
           currentIndex = Num 0, isAutoplay = autoplay, autoplayTimer = None,
           listening = False, intervals = [], nextId = 1,
           windowTestimonialsCarousel = False, renders = []\<rparr>"

subsection \<open>Global wrappers for inline handlers\<close>

definition changeTestimonial :: "jsnum \<Rightarrow> page \<Rightarrow> page" where
  "changeTestimonial direction s =
     (if windowTestimonialsCarousel s
      then (if js_lt (Num 0) direction then nextTestimonial s else previousTestimonial s)
      else s)"

definition currentTestimonial :: "jsnum \<Rightarrow> page \<Rightarrow> page" where
  "currentTestimonial index s =
     (if windowTestimonialsCarousel s then goToTestimonial (js_sub index (Num 1)) s else s)"

text \<open>
  \<^verbatim>\<open>AlFahdApp.exposeGlobalComponents\<close>, for the carousel:
  \<^verbatim>\<open>initializePageSpecificComponents\<close> builds the instance only when the page has the
  slider container, and \<^verbatim>\<open>window.testimonialsCarousel\<close> is undefined otherwise.
\<close>

definition exposeGlobalComponents :: "page \<Rightarrow> page" where
  "exposeGlobalComponents s = s\<lparr>windowTestimonialsCarousel := container s\<rparr>"

subsection \<open>Events\<close>

text \<open>
  What can reach the carousel after construction. The DOM events are delivered only when
  \<^verbatim>\<open>setupEventListeners\<close> has run (and, for a button or a dot, when the element exists);
  an interval timer fires only while its handle is live, and its callback is
  \<^verbatim>\<open>nextTestimonial\<close>; the inline handlers go through the global wrappers.
\<close>

text \<open>The callback \<^verbatim>\<open>startAutoplay\<close> hands to \<^verbatim>\<open>setInterval\<close>.\<close>

definition autoplayCallback :: "page \<Rightarrow> page" where
  "autoplayCallback s = nextTestimonial s"

datatype event =
    ClickPrev
  | ClickNext
  | ClickDot nat
  | MouseEnter
  | MouseLeave
  | Swipe real real
  | TimerFires nat
  | InlineChange int
  | InlineCurrent int
  | ExposeGlobal

fun dispatch :: "event \<Rightarrow> page \<Rightarrow> page" where
  "dispatch ClickPrev s = (if listening s \<and> prevBtn s then previousTestimonial s else s)"
| "dispatch ClickNext s = (if listening s \<and> nextBtn s then nextTestimonial s else s)"
| "dispatch (ClickDot k) s =
     (if listening s \<and> k < length (dots s) then goToTestimonial (Num (int k)) s else s)"
| "dispatch MouseEnter s = (if listening s then pauseAutoplay s else s)"
| "dispatch MouseLeave s = (if listening s then startAutoplay s else s)"
| "dispatch (Swipe startX endX) s = (if listening s then handleSwipe startX endX s else s)"
| "dispatch (TimerFires h) s = (if h \<in> set (intervals s) then autoplayCallback s else s)"
| "dispatch (InlineChange d) s = changeTestimonial (Num d) s"
| "dispatch (InlineCurrent i) s = currentTestimonial (Num i) s"
| "dispatch ExposeGlobal s = exposeGlobalComponents s"

fun run :: "event list \<Rightarrow> page \<Rightarrow> page" where
  "run [] s = s"
| "run (e # es) s = run es (dispatch e s)"

text \<open>The current index is an integer inside the card list.\<close>

fun in_range :: "jsnum \<Rightarrow> nat \<Rightarrow> bool" where
  "in_range (Num i) n = (0 \<le> i \<and> i < int n)"
| "in_range NaN n = False"

definition index_ok :: "page \<Rightarrow> bool" where
  "index_ok s = in_range (currentIndex s) (length (cards s))"

subsection \<open>Example pages\<close>

text \<open>
  A page with the slider container, both buttons, \<open>k\<close> cards and \<open>k\<close> dots, none
  marked active in the markup, and autoplay enabled, after construction.
\<close>

definition demo :: "nat \<Rightarrow> page" where
  "demo k = TestimonialsCarousel True True True (replicate k False) (replicate k False) True"

text \<open>A page with \<open>k\<close> cards and \<open>m\<close> dots, otherwise the same.\<close>

definition demo_dots :: "nat \<Rightarrow> nat \<Rightarrow> page" where
  "demo_dots k m =
     TestimonialsCarousel True True True (replicate k False) (replicate m False) True"

text \<open>The page \<open>demo k\<close> with autoplay disabled by configuration.\<close>

definition demo_off :: "nat \<Rightarrow> page" where
  "demo_off k = TestimonialsCarousel True True True (replicate k False) (replicate k False) False"

section \<open>Basic facts\<close>

lemma length_add_active [simp]: "length (add_active j xs) = length xs"
  by (cases j) simp_all

lemma length_remove_active [simp]: "length (remove_active xs) = length xs"
  by (simp add: remove_active_def)

lemma cards_startAutoplay [simp]: "cards (startAutoplay s) = cards s"
  and dots_startAutoplay [simp]: "dots (startAutoplay s) = dots s"
  and currentIndex_startAutoplay [simp]: "currentIndex (startAutoplay s) = currentIndex s"
  and renders_startAutoplay [simp]: "renders (startAutoplay s) = renders s"
  by (simp_all add: startAutoplay_def)

lemma cards_pauseAutoplay [simp]: "cards (pauseAutoplay s) = cards s"
  and dots_pauseAutoplay [simp]: "dots (pauseAutoplay s) = dots s"
  and currentIndex_pauseAutoplay [simp]: "currentIndex (pauseAutoplay s) = currentIndex s"
  and renders_pauseAutoplay [simp]: "renders (pauseAutoplay s) = renders s"
  by (simp_all add: pauseAutoplay_def split: option.splits)

lemma cards_resetAutoplay [simp]: "cards (resetAutoplay s) = cards s"
  and dots_resetAutoplay [simp]: "dots (resetAutoplay s) = dots s"
  and currentIndex_resetAutoplay [simp]: "currentIndex (resetAutoplay s) = currentIndex s"
  and renders_resetAutoplay [simp]: "renders (resetAutoplay s) = renders s"
  by (simp_all add: resetAutoplay_def)

lemma length_cards_showTestimonial [simp]:
  "length (cards (showTestimonial j s)) = length (cards s)"
  by (simp add: showTestimonial_def)

lemma showTestimonial_in_range:
  assumes "0 \<le> i" and "i < int (length (cards s))"
  shows "showTestimonial (Num i) s =
           s\<lparr>cards := (remove_active (cards s))[nat i := True],
             dots := add_active (Num i) (remove_active (dots s)),
             currentIndex := Num i,
             renders := renders s @ [Num i]\<rparr>"
  using assms by (simp add: showTestimonial_def)

lemma showTestimonial_out_of_range:
  assumes "i < 0 \<or> int (length (cards s)) \<le> i"
  shows "showTestimonial (Num i) s = s"
  using assms by (auto simp: showTestimonial_def)

section \<open>Wrap-around navigation\<close>

lemma currentIndex_nextTestimonial:
  assumes "currentIndex s = Num i" and "0 \<le> i" and "i < int (length (cards s))"
  shows "currentIndex (nextTestimonial s) = Num ((i + 1) mod int (length (cards s)))"
proof -
  let ?n = "int (length (cards s))"
  have n: "0 < ?n" using assms by linarith
  have "js_rem (js_add (currentIndex s) (Num 1)) (Num ?n) = Num ((i + 1) mod ?n)"
    using assms n by simp
  moreover have "0 \<le> (i + 1) mod ?n" and "(i + 1) mod ?n < ?n"
    using n by simp_all
  ultimately show ?thesis
    by (simp add: nextTestimonial_def showTestimonial_in_range)
qed

lemma currentIndex_previousTestimonial:
  assumes "currentIndex s = Num i" and "0 \<le> i" and "i < int (length (cards s))"
  shows "currentIndex (previousTestimonial s) = Num ((i - 1 + int (length (cards s))) mod int (length (cards s)))"
proof -
  let ?n = "int (length (cards s))"
  have n: "0 < ?n" using assms by linarith
  have "js_rem (js_add (js_sub (currentIndex s) (Num 1)) (Num ?n)) (Num ?n)
          = Num ((i - 1 + ?n) mod ?n)"
    using assms n by simp
  moreover have "0 \<le> (i - 1 + ?n) mod ?n" and "(i - 1 + ?n) mod ?n < ?n"
    using n by simp_all
  ultimately show ?thesis
    by (simp add: previousTestimonial_def showTestimonial_in_range)
qed

text \<open>
  C2. For every card count \<open>N > 0\<close> and every current index \<open>i\<close> in \<open>[0, N-1]\<close>,
  \<^verbatim>\<open>nextTestimonial\<close> sets the index to \<open>(i + 1) mod N\<close> and \<^verbatim>\<open>previousTestimonial\<close> sets
  it to \<open>(i - 1 + N) mod N\<close>; with four cards, next from index 3 gives index 0 and
  previous from index 0 gives index 3.
\<close>

theorem next_previous_wrap:
  assumes "length (cards s) = N" and "0 < N"
    and "currentIndex s = Num i" and "0 \<le> i" and "i < int N"
  shows "currentIndex (nextTestimonial s) = Num ((i + 1) mod int N)
       \<and> currentIndex (previousTestimonial s) = Num ((i - 1 + int N) mod int N)
       \<and> (N = 4 \<and> i = 3 \<longrightarrow> currentIndex (nextTestimonial s) = Num 0)
       \<and> (N = 4 \<and> i = 0 \<longrightarrow> currentIndex (previousTestimonial s) = Num 3)"
proof -
  have a: "currentIndex (nextTestimonial s) = Num ((i + 1) mod int N)"
    using currentIndex_nextTestimonial [of s i] assms by simp
  have b: "currentIndex (previousTestimonial s) = Num ((i - 1 + int N) mod int N)"
    using currentIndex_previousTestimonial [of s i] assms by simp
  show ?thesis using a b by simp
qed

theorem next_previous_wrap_witness:
  "currentIndex (nextTestimonial (run [ClickPrev] (demo 4))) = Num 0
   \<and> currentIndex (previousTestimonial (demo 4)) = Num 3"
proof -
  have a: "length (cards (run [ClickPrev] (demo 4))) = 4"
    and a': "currentIndex (run [ClickPrev] (demo 4)) = Num 3"
    by code_simp+
  have b: "length (cards (demo 4)) = 4" and b': "currentIndex (demo 4) = Num 0"
    by code_simp+
  from next_previous_wrap [OF a _ a'] next_previous_wrap [OF b _ b']
  show ?thesis by simp
qed

section \<open>The index invariant and the render contract\<close>

lemma filter_eq_upt: "filter (\<lambda>j. j = k) [0..<n] = (if k < n then [k] else [])"
  by (induction n) auto

lemma active_indices_single:
  assumes "k < length xs"
  shows "active_indices ((remove_active xs)[k := True]) = [k]"
proof -
  have "filter (\<lambda>j. ((remove_active xs)[k := True]) ! j) [0..<length xs]
          = filter (\<lambda>j. j = k) [0..<length xs]"
    using assms by (intro filter_cong) (auto simp: remove_active_def nth_list_update)
  then show ?thesis
    using assms by (simp add: active_indices_def filter_eq_upt)
qed

lemma index_ok_showTestimonial:
  assumes "index_ok s"
  shows "index_ok (showTestimonial (Num v) s)"
  using assms by (auto simp: index_ok_def showTestimonial_def)

lemma index_ok_resetAutoplay [simp]: "index_ok (resetAutoplay s) = index_ok s"
  by (simp add: index_ok_def)

lemma index_ok_startAutoplay [simp]: "index_ok (startAutoplay s) = index_ok s"
  by (simp add: index_ok_def)

lemma index_ok_pauseAutoplay [simp]: "index_ok (pauseAutoplay s) = index_ok s"
  by (simp add: index_ok_def)

lemma index_ok_nextTestimonial:
  assumes "index_ok s"
  shows "index_ok (nextTestimonial s)"
proof -
  obtain i where i: "currentIndex s = Num i" "0 \<le> i" "i < int (length (cards s))"
    using assms by (cases "currentIndex s") (auto simp: index_ok_def)
  have "0 < int (length (cards s))" using i by linarith
  then show ?thesis
    using currentIndex_nextTestimonial [OF i]
    by (simp add: index_ok_def nextTestimonial_def)
qed

lemma index_ok_previousTestimonial:
  assumes "index_ok s"
  shows "index_ok (previousTestimonial s)"
proof -
  obtain i where i: "currentIndex s = Num i" "0 \<le> i" "i < int (length (cards s))"
    using assms by (cases "currentIndex s") (auto simp: index_ok_def)
  have "0 < int (length (cards s))" using i by linarith
  then show ?thesis
    using currentIndex_previousTestimonial [OF i]
    by (simp add: index_ok_def previousTestimonial_def)
qed

lemma index_ok_goToTestimonial:
  "index_ok s \<Longrightarrow> index_ok (goToTestimonial (Num v) s)"
  by (simp add: goToTestimonial_def index_ok_showTestimonial)

lemma index_ok_handleSwipe:
  "index_ok s \<Longrightarrow> index_ok (handleSwipe a b s)"
  by (simp add: handleSwipe_def Let_def index_ok_nextTestimonial index_ok_previousTestimonial)

lemma index_ok_exposeGlobalComponents [simp]:
  "index_ok (exposeGlobalComponents s) = index_ok s"
  by (simp add: exposeGlobalComponents_def index_ok_def)

lemma index_ok_dispatch:
  "index_ok s \<Longrightarrow> index_ok (dispatch e s)"
  by (cases e)
     (simp_all add: index_ok_nextTestimonial index_ok_previousTestimonial index_ok_goToTestimonial
        index_ok_handleSwipe autoplayCallback_def changeTestimonial_def currentTestimonial_def)

lemma index_ok_run:
  "index_ok s \<Longrightarrow> index_ok (run es s)"
  by (induction es arbitrary: s) (simp_all add: index_ok_dispatch)

lemma index_ok_TestimonialsCarousel:
  "cs \<noteq> [] \<Longrightarrow> index_ok (TestimonialsCarousel c p n cs ds a)"
  by (auto simp: TestimonialsCarousel_def init_def index_ok_def showTestimonial_def
      setupEventListeners_def)

lemma length_cards_navigation [simp]:
  "length (cards (nextTestimonial s)) = length (cards s)"
  "length (cards (previousTestimonial s)) = length (cards s)"
  "length (cards (goToTestimonial j s)) = length (cards s)"
  by (simp_all add: nextTestimonial_def previousTestimonial_def goToTestimonial_def Let_def)

lemma length_cards_dispatch: "length (cards (dispatch e s)) = length (cards s)"
  by (cases e)
     (simp_all add: handleSwipe_def Let_def autoplayCallback_def changeTestimonial_def
        currentTestimonial_def exposeGlobalComponents_def)

lemma length_cards_run: "length (cards (run es s)) = length (cards s)"
  by (induction es arbitrary: s) (simp_all add: length_cards_dispatch)

lemma length_cards_TestimonialsCarousel:
  "length (cards (TestimonialsCarousel c p n cs ds a)) = length cs"
  by (simp add: TestimonialsCarousel_def init_def setupEventListeners_def)

lemma active_indices_none: "active_indices (remove_active xs) = []"
  by (simp add: active_indices_def remove_active_def filter_empty_conv)

lemma active_indices_add_active:
  assumes "0 \<le> i"
  shows "active_indices (add_active (Num i) (remove_active xs))
           = (if nat i < length xs then [nat i] else [])"
proof (cases "nat i < length xs")
  case True
  then have "i < int (length xs)" using assms by linarith
  then show ?thesis using True assms by (simp add: active_indices_single)
next
  case False
  then have "\<not> i < int (length xs)" using assms by linarith
  then show ?thesis using False by (simp add: active_indices_none)
qed

text \<open>
  C1, as amended. In every state reached from the construction of a carousel with
  \<open>N > 0\<close> cards by any sequence of events, the current index is an integer in
  \<open>[0, N-1]\<close>. After \<^verbatim>\<open>showTestimonial\<close> with an index in range, the card at that index is
  the only active card, and every dot other than the one at that index is inactive. The
  dot at that index is active when the page has one: exactly one dot is active when the
  index is below the number of dots, in particular when there are as many dots as cards,
  and no dot is active otherwise.
\<close>

theorem index_in_range_and_active_marks:
  "(cs \<noteq> [] \<longrightarrow>
      length (cards (run es (TestimonialsCarousel c p n cs ds a))) = length cs
      \<and> index_ok (run es (TestimonialsCarousel c p n cs ds a)))
   \<and> (0 \<le> i \<and> i < int (length (cards s)) \<longrightarrow>
      active_indices (cards (showTestimonial (Num i) s)) = [nat i]
      \<and> currentIndex (showTestimonial (Num i) s) = Num i
      \<and> active_indices (dots (showTestimonial (Num i) s))
            = (if nat i < length (dots s) then [nat i] else []))
   \<and> (0 \<le> i \<and> i < int (length (cards s)) \<and> length (dots s) = length (cards s) \<longrightarrow>
      active_indices (dots (showTestimonial (Num i) s)) = [nat i])"
proof (intro conjI impI)
  assume "cs \<noteq> []"
  then show "index_ok (run es (TestimonialsCarousel c p n cs ds a))"
    by (simp add: index_ok_run index_ok_TestimonialsCarousel)
next
  show "length (cards (run es (TestimonialsCarousel c p n cs ds a))) = length cs"
    by (simp add: length_cards_run length_cards_TestimonialsCarousel)
next
  assume r: "0 \<le> i \<and> i < int (length (cards s))"
  then have "nat i < length (cards s)" by linarith
  then show "active_indices (cards (showTestimonial (Num i) s)) = [nat i]"
    using r by (simp add: showTestimonial_in_range active_indices_single)
  show "currentIndex (showTestimonial (Num i) s) = Num i"
    using r by (simp add: showTestimonial_in_range)
  show "active_indices (dots (showTestimonial (Num i) s))
          = (if nat i < length (dots s) then [nat i] else [])"
    using r by (simp add: showTestimonial_in_range active_indices_add_active
        del: add_active.simps)
next
  assume r: "0 \<le> i \<and> i < int (length (cards s)) \<and> length (dots s) = length (cards s)"
  then have "nat i < length (dots s)" by linarith
  then show "active_indices (dots (showTestimonial (Num i) s)) = [nat i]"
    using r by (simp add: showTestimonial_in_range active_indices_single)
qed

theorem index_in_range_and_active_marks_witness:
  "index_ok (run [ClickNext, Swipe 100 40, TimerFires 3, InlineCurrent 7, ClickPrev]
               (TestimonialsCarousel True True True [True, False, False] [True, False, False] True))
   \<and> active_indices (cards (showTestimonial (Num 2) (demo 3))) = [2]
   \<and> currentIndex (showTestimonial (Num 2) (demo 3)) = Num 2
   \<and> active_indices (dots (showTestimonial (Num 2) (demo 3))) = [2]
   \<and> active_indices (cards (showTestimonial (Num 2) (demo_dots 3 2))) = [2]
   \<and> active_indices (dots (showTestimonial (Num 2) (demo_dots 3 2))) = []
   \<and> active_indices (dots (showTestimonial (Num 1) (demo_dots 3 2))) = [1]"
proof -
  have l: "length (cards (demo 3)) = 3" "length (dots (demo 3)) = 3"
    "length (cards (demo_dots 3 2)) = 3" "length (dots (demo_dots 3 2)) = 2"
    by code_simp+
  show ?thesis
    using index_in_range_and_active_marks
            [of "[True, False, False]"
                "[ClickNext, Swipe 100 40, TimerFires 3, InlineCurrent 7, ClickPrev]"
                True True True "[True, False, False]" True 2 "demo 3"]
          index_in_range_and_active_marks [where i = 2 and s = "demo_dots 3 2"]
          index_in_range_and_active_marks [where i = 1 and s = "demo_dots 3 2"]
          l
    by simp
qed

text \<open>
  C1 as stated fails: on a page with three cards and two dots, two clicks on next reach
  index 2, where card 2 is the only active card and no dot is active.
\<close>

theorem index_in_range_and_single_active_counterexample:
  "length (cards (run [ClickNext, ClickNext] (demo_dots 3 2))) = 3
   \<and> length (dots (run [ClickNext, ClickNext] (demo_dots 3 2))) = 2
   \<and> currentIndex (run [ClickNext, ClickNext] (demo_dots 3 2)) = Num 2
   \<and> renders (run [ClickNext, ClickNext] (demo_dots 3 2)) = [Num 0, Num 1, Num 2]
   \<and> active_indices (cards (run [ClickNext, ClickNext] (demo_dots 3 2))) = [2]
   \<and> active_indices (dots (run [ClickNext, ClickNext] (demo_dots 3 2))) = []"
  by code_simp

section \<open>Repeated rendering\<close>

lemma remove_active_replicate: "remove_active xs = replicate (length xs) False"
  by (simp add: remove_active_def map_replicate_const)

lemma remove_active_list_update [simp]: "remove_active (xs[k := b]) = remove_active xs"
  by (simp add: remove_active_replicate)

lemma remove_active_add_active [simp]:
  "remove_active (add_active j xs) = remove_active xs"
  by (simp add: remove_active_replicate)

lemma remove_active_idem [simp]: "remove_active (remove_active xs) = remove_active xs"
  by (simp add: remove_active_replicate)

lemma showTestimonial_twice:
  "cards (showTestimonial j (showTestimonial j s)) = cards (showTestimonial j s)"
  "dots (showTestimonial j (showTestimonial j s)) = dots (showTestimonial j s)"
  by (simp_all add: showTestimonial_def)

lemma goToTestimonial_in_range:
  assumes "0 \<le> v" and "v < int (length (cards s))"
  shows "currentIndex (goToTestimonial (Num v) s) = Num v"
    and "renders (goToTestimonial (Num v) s) = renders s @ [Num v]"
    and "cards (goToTestimonial (Num v) s) = (remove_active (cards s))[nat v := True]"
    and "dots (goToTestimonial (Num v) s) = add_active (Num v) (remove_active (dots s))"
  using assms by (simp_all add: goToTestimonial_def showTestimonial_in_range)

text \<open>
  C9. For every valid index \<open>v\<close>, \<^verbatim>\<open>goToTestimonial(v); goToTestimonial(v)\<close> leaves the
  current index at \<open>v\<close> and runs the render body with \<open>v\<close> both times (the trace grows
  by \<open>v, v\<close>); the cards and dots after the second call are those after the first, and
  the same holds for \<^verbatim>\<open>showTestimonial\<close> repeated with the same index.
\<close>

theorem goTo_idempotent:
  assumes "0 \<le> v" and "v < int (length (cards s))"
  shows "currentIndex (goToTestimonial (Num v) (goToTestimonial (Num v) s)) = Num v
       \<and> renders (goToTestimonial (Num v) (goToTestimonial (Num v) s)) = renders s @ [Num v, Num v]
       \<and> cards (goToTestimonial (Num v) (goToTestimonial (Num v) s)) = cards (goToTestimonial (Num v) s)
       \<and> dots (goToTestimonial (Num v) (goToTestimonial (Num v) s)) = dots (goToTestimonial (Num v) s)
       \<and> cards (showTestimonial (Num v) (showTestimonial (Num v) s)) = cards (showTestimonial (Num v) s)
       \<and> dots (showTestimonial (Num v) (showTestimonial (Num v) s)) = dots (showTestimonial (Num v) s)"
proof -
  let ?s1 = "goToTestimonial (Num v) s"
  have r1: "0 \<le> v" "v < int (length (cards ?s1))" using assms by simp_all
  have "cards (goToTestimonial (Num v) ?s1) = cards ?s1"
    by (simp add: goToTestimonial_in_range(3) [OF r1] goToTestimonial_in_range(3) [OF assms])
  moreover have "dots (goToTestimonial (Num v) ?s1) = dots ?s1"
    by (simp add: goToTestimonial_in_range(4) [OF r1] goToTestimonial_in_range(4) [OF assms]
        del: add_active.simps)
  moreover have "renders (goToTestimonial (Num v) ?s1) = renders s @ [Num v, Num v]"
    by (simp add: goToTestimonial_in_range(2) [OF r1] goToTestimonial_in_range(2) [OF assms])
  moreover have "currentIndex (goToTestimonial (Num v) ?s1) = Num v"
    by (rule goToTestimonial_in_range(1) [OF r1])
  ultimately show ?thesis by (simp add: showTestimonial_twice)
qed

theorem goTo_idempotent_witness:
  "currentIndex (goToTestimonial (Num 2) (goToTestimonial (Num 2) (demo 4))) = Num 2
   \<and> renders (goToTestimonial (Num 2) (goToTestimonial (Num 2) (demo 4))) = [Num 0, Num 2, Num 2]
   \<and> cards (goToTestimonial (Num 2) (goToTestimonial (Num 2) (demo 4))) = [False, False, True, False]"
proof -
  have l: "(0::int) \<le> 2" "2 < int (length (cards (demo 4)))" by code_simp+
  have r: "renders (demo 4) = [Num 0]" "cards (goToTestimonial (Num 2) (demo 4)) = [False, False, True, False]"
    by code_simp+
  show ?thesis using goTo_idempotent [OF l] r by simp
qed

section \<open>Swipe threshold\<close>

lemma bit_length_le: "n < 2 ^ k \<Longrightarrow> bit_length n \<le> k"
proof (induction k arbitrary: n)
  case 0
  then show ?case by (simp add: bit_length.simps)
next
  case (Suc k)
  show ?case
  proof (cases "n \<le> 0")
    case True
    then show ?thesis by (simp add: bit_length.simps)
  next
    case False
    have "n < 2 * 2 ^ k" using Suc.prems by simp
    then have "n div 2 < 2 ^ k" by linarith
    then have "bit_length (n div 2) \<le> k" by (rule Suc.IH)
    then show ?thesis using False by (subst bit_length.simps) simp
  qed
qed

lemma round_half_even_of_int [simp]: "round_half_even (of_int m) = m"
  by (simp add: round_half_even_def)

text \<open>An integer below \<^verbatim>\<open>2^53\<close> in magnitude is a double.\<close>

lemma double_round_of_int:
  assumes "\<bar>k\<bar> < 2 ^ 53"
  shows "double_round (of_int k) = of_int k"
proof (cases "k = 0")
  case True
  then show ?thesis by (simp add: double_round_def)
next
  case False
  let ?n = "\<bar>k\<bar>"
  have n: "?n < 2 ^ 53" using assms .
  have "1 \<le> \<bar>k\<bar>" using False by simp
  then have "(1::real) \<le> of_int \<bar>k\<bar>" by (simp only: of_int_1_le_iff)
  then have one: "(1::real) \<le> \<bar>of_int k\<bar>" by simp
  have b: "binade \<bar>of_int k :: real\<bar> = int (bit_length ?n) - 1"
    using one by (simp add: binade_def flip: of_int_abs)
  have "bit_length ?n \<le> 53" using n by (rule bit_length_le)
  then have e: "0 \<le> 52 - binade \<bar>of_int k :: real\<bar>" using b by simp
  define j where "j = nat (52 - binade \<bar>of_int k :: real\<bar>)"
  have q: "pow2 (52 - binade \<bar>of_int k :: real\<bar>) = 2 ^ j"
    using e by (simp add: pow2_def j_def)
  have m: "\<bar>of_int k :: real\<bar> * 2 ^ j = of_int (\<bar>k\<bar> * 2 ^ j)"
    by simp
  have "double_round (of_int k) = sgn (of_int k) * of_int (\<bar>k\<bar> * 2 ^ j) / 2 ^ j"
    using False unfolding double_round_def Let_def q m round_half_even_of_int by simp
  also have "\<dots> = sgn (of_int k :: real) * \<bar>of_int k\<bar>"
    by simp
  also have "\<dots> = of_int k"
    by (simp add: sgn_mult_abs)
  finally show ?thesis .
qed

lemma double_sub_of_int:
  assumes "\<bar>a - b\<bar> < 2 ^ 53"
  shows "double_sub (of_int a) (of_int b) = of_int (a - b)"
  using double_round_of_int [OF assms] by (simp add: double_sub_def)

lemma double_sub_100:
  "double_sub 100 40 = 60" "double_sub 100 70 = 30"
  using double_sub_of_int [of 100 40] double_sub_of_int [of 100 70] by simp_all

text \<open>
  C8, as amended. Let \<open>diff\<close> be the value the program computes for
  \<^verbatim>\<open>startX - endX\<close>: the exact difference rounded to the nearest double, which is the
  exact difference itself when both coordinates are integers (the difference being below
  \<^verbatim>\<open>2^53\<close> in magnitude). When \<open>|diff| \<le> 50\<close> \<^verbatim>\<open>handleSwipe\<close> does nothing; when
  \<open>diff > 50\<close> it does exactly what one \<^verbatim>\<open>nextTestimonial\<close> does; when \<open>diff < -50\<close>
  exactly what one \<^verbatim>\<open>previousTestimonial\<close> does. A swipe from 100 to 40 (diff 60) is one
  next, and a swipe from 100 to 70 (diff 30) is nothing.
\<close>

theorem swipe_threshold:
  "(\<bar>double_sub startX endX\<bar> \<le> 50 \<longrightarrow> handleSwipe startX endX s = s)
   \<and> (double_sub startX endX > 50 \<longrightarrow> handleSwipe startX endX s = nextTestimonial s)
   \<and> (double_sub startX endX < - 50 \<longrightarrow> handleSwipe startX endX s = previousTestimonial s)
   \<and> (\<bar>a - b\<bar> < 2 ^ 53 \<longrightarrow> double_sub (of_int a) (of_int b) = of_int (a - b))
   \<and> double_sub 100 40 = 60 \<and> handleSwipe 100 40 s = nextTestimonial s
   \<and> double_sub 100 70 = 30 \<and> handleSwipe 100 70 s = s"
  by (simp add: handleSwipe_def Let_def double_sub_of_int double_sub_100)

theorem swipe_threshold_witness:
  "handleSwipe 100 40 (demo 4) = nextTestimonial (demo 4)
   \<and> handleSwipe 100 70 (demo 4) = demo 4
   \<and> handleSwipe 40 100 (demo 4) = previousTestimonial (demo 4)
   \<and> handleSwipe (7050948166601933 / 140737488355328)
                   (3602879701896397 / 36028797018963968) (demo 4) = demo 4
   \<and> double_sub (of_int 300) (of_int (- 20)) = of_int 320"
proof -
  have d: "double_sub 100 40 = 60" "double_sub 100 70 = 30" "double_sub 40 100 = - 60"
    "double_sub (7050948166601933 / 140737488355328)
                (3602879701896397 / 36028797018963968) = 50"
    by code_simp+
  show ?thesis
    using swipe_threshold [where startX = 100 and endX = 40 and s = "demo 4"
                             and a = 300 and b = "- 20"]
          swipe_threshold [where startX = 100 and endX = 70 and s = "demo 4"]
          swipe_threshold [where startX = 40 and endX = 100 and s = "demo 4"]
          swipe_threshold [where startX = "7050948166601933 / 140737488355328"
                             and endX = "3602879701896397 / 36028797018963968"
                             and s = "demo 4"]
          d
    by simp
qed

text \<open>
  C8 as stated, with the exact difference for \<open>diff\<close>, fails: for the doubles nearest to
  50.1 and 0.1 the exact difference exceeds 50, the computed one is 50, and
  \<^verbatim>\<open>handleSwipe\<close> does nothing where one \<^verbatim>\<open>nextTestimonial\<close> would move to index 1.
\<close>

theorem swipe_threshold_counterexample:
  "double_round (501 / 10) = 7050948166601933 / 140737488355328
   \<and> double_round (1 / 10) = 3602879701896397 / 36028797018963968
   \<and> 50 < (7050948166601933 / 140737488355328 :: real)
             - 3602879701896397 / 36028797018963968
   \<and> handleSwipe (7050948166601933 / 140737488355328)
                   (3602879701896397 / 36028797018963968) (demo 4) = demo 4
   \<and> currentIndex (demo 4) = Num 0
   \<and> currentIndex (nextTestimonial (demo 4)) = Num 1"
  by code_simp

section \<open>Global wrappers\<close>

text \<open>
  C10. The inline-handler wrappers take a 1-based index: with the carousel registered on
  the window, \<^verbatim>\<open>currentTestimonial(i)\<close> is \<^verbatim>\<open>goToTestimonial(i - 1)\<close>, which for
  \<open>1 \<le> i \<le> N\<close> makes item \<open>i - 1\<close> the current and only active one, and
  \<^verbatim>\<open>changeTestimonial(d)\<close> is \<^verbatim>\<open>nextTestimonial\<close> when \<open>d > 0\<close> and
  \<^verbatim>\<open>previousTestimonial\<close> otherwise. With no carousel registered both wrappers change
  nothing.
\<close>

theorem global_wrappers:
  "(windowTestimonialsCarousel s \<longrightarrow>
       currentTestimonial (Num i) s = goToTestimonial (Num (i - 1)) s
     \<and> (1 \<le> i \<and> i \<le> int (length (cards s)) \<longrightarrow>
          currentIndex (currentTestimonial (Num i) s) = Num (i - 1)
        \<and> active_indices (cards (currentTestimonial (Num i) s)) = [nat (i - 1)])
     \<and> (d > 0 \<longrightarrow> changeTestimonial (Num d) s = nextTestimonial s)
     \<and> (\<not> d > 0 \<longrightarrow> changeTestimonial (Num d) s = previousTestimonial s))
   \<and> (\<not> windowTestimonialsCarousel s \<longrightarrow>
       currentTestimonial x s = s \<and> changeTestimonial x s = s)"
proof (intro conjI impI)
  assume w: "windowTestimonialsCarousel s"
  show "currentTestimonial (Num i) s = goToTestimonial (Num (i - 1)) s"
    using w by (simp add: currentTestimonial_def)
  show "changeTestimonial (Num d) s = nextTestimonial s" if "d > 0"
    using w that by (simp add: changeTestimonial_def)
  show "changeTestimonial (Num d) s = previousTestimonial s" if "\<not> d > 0"
    using w that by (simp add: changeTestimonial_def)
  assume r: "1 \<le> i \<and> i \<le> int (length (cards s))"
  then have r': "0 \<le> i - 1" "i - 1 < int (length (cards s))" by simp_all
  then have "nat (i - 1) < length (cards s)" by linarith
  then show "active_indices (cards (currentTestimonial (Num i) s)) = [nat (i - 1)]"
    using w by (simp add: currentTestimonial_def goToTestimonial_in_range(3) [OF r']
        active_indices_single)
  show "currentIndex (currentTestimonial (Num i) s) = Num (i - 1)"
    using w by (simp add: currentTestimonial_def goToTestimonial_in_range(1) [OF r'])
next
  assume "\<not> windowTestimonialsCarousel s"
  then show "currentTestimonial x s = s" "changeTestimonial x s = s"
    by (simp_all add: currentTestimonial_def changeTestimonial_def)
qed

theorem global_wrappers_witness:
  "currentTestimonial (Num 1) (run [ExposeGlobal, ClickNext] (demo 3))
     = goToTestimonial (Num 0) (run [ExposeGlobal, ClickNext] (demo 3))
   \<and> currentIndex (currentTestimonial (Num 1) (run [ExposeGlobal, ClickNext] (demo 3))) = Num 0
   \<and> active_indices (cards (currentTestimonial (Num 1) (run [ExposeGlobal, ClickNext] (demo 3)))) = [0]
   \<and> changeTestimonial (Num 1) (run [ExposeGlobal, ClickNext] (demo 3))
        = nextTestimonial (run [ExposeGlobal, ClickNext] (demo 3))
   \<and> changeTestimonial (Num (- 1)) (run [ExposeGlobal, ClickNext] (demo 3))
        = previousTestimonial (run [ExposeGlobal, ClickNext] (demo 3))
   \<and> currentTestimonial (Num 1) (demo 3) = demo 3
   \<and> changeTestimonial (Num 1) (demo 3) = demo 3"
proof -
  let ?e = "run [ExposeGlobal, ClickNext] (demo 3)"
  have e: "windowTestimonialsCarousel ?e" "length (cards ?e) = 3" "currentIndex ?e = Num 1"
    by code_simp+
  have u: "\<not> windowTestimonialsCarousel (demo 3)"
    by code_simp
  show ?thesis
    using global_wrappers [where s = ?e and i = 1 and d = 1]
          global_wrappers [where s = ?e and i = 1 and d = "- 1"]
          global_wrappers [where s = "demo 3" and x = "Num 1"]
          e u
    by simp
qed

section \<open>The autoplay timer\<close>

lemma timer_showTestimonial [simp]:
  "isAutoplay (showTestimonial j s) = isAutoplay s"
  "autoplayTimer (showTestimonial j s) = autoplayTimer s"
  "intervals (showTestimonial j s) = intervals s"
  "nextId (showTestimonial j s) = nextId s"
  by (simp_all add: showTestimonial_def)

lemma resetAutoplay_enabled:
  assumes "isAutoplay s"
  shows "autoplayTimer (resetAutoplay s) = Some (nextId s)"
    and "nextId s \<in> set (intervals (resetAutoplay s))"
  using assms
  by (simp_all add: resetAutoplay_def startAutoplay_def pauseAutoplay_def split: option.splits)

lemma resetAutoplay_cancels:
  assumes "autoplayTimer s = Some h" and "h \<noteq> 0" and "h \<noteq> nextId s"
  shows "h \<notin> set (intervals (resetAutoplay s))"
  using assms by (simp add: resetAutoplay_def startAutoplay_def pauseAutoplay_def)

lemma resetAutoplay_disabled:
  assumes "\<not> isAutoplay s" and "autoplayTimer s = None"
  shows "resetAutoplay s = s"
  using assms by (simp add: resetAutoplay_def startAutoplay_def pauseAutoplay_def)

section \<open>Going to an index out of range\<close>

lemma resetAutoplay_unchanged_iff:
  "resetAutoplay s = s
     \<longleftrightarrow> \<not> isAutoplay s \<and> (autoplayTimer s = None \<or> autoplayTimer s = Some 0)"
proof (cases "isAutoplay s")
  case True
  then have "nextId (resetAutoplay s) = nextId s + 1"
    by (simp add: resetAutoplay_def startAutoplay_def pauseAutoplay_def split: option.splits)
  then have "resetAutoplay s \<noteq> s" by auto
  then show ?thesis using True by simp
next
  case False
  show ?thesis
  proof (cases "autoplayTimer s")
    case None
    then show ?thesis using False
      by (simp add: resetAutoplay_def startAutoplay_def pauseAutoplay_def)
  next
    case (Some h)
    show ?thesis
    proof (cases "h = 0")
      case True
      then show ?thesis using False Some
        by (simp add: resetAutoplay_def startAutoplay_def pauseAutoplay_def)
    next
      case nz: False
      then have "autoplayTimer (resetAutoplay s) = None" using False Some
        by (simp add: resetAutoplay_def startAutoplay_def pauseAutoplay_def)
      then have "resetAutoplay s \<noteq> s" using Some by auto
      then show ?thesis using nz Some by simp
    qed
  qed
qed

text \<open>
  C3, as amended. With \<open>N > 0\<close> cards and an integer \<open>v\<close> outside \<open>[0, N-1]\<close>,
  \<^verbatim>\<open>goToTestimonial(v)\<close> leaves the current index, the cards and the dots unchanged and
  runs no render, but it still resets the autoplay timer: it does exactly what
  \<^verbatim>\<open>resetAutoplay\<close> does. With autoplay enabled a new timer is started and held by the
  carousel, and the timer the carousel held before (a non-zero handle other than the one
  newly issued) is cancelled. The call changes nothing at all if and only if autoplay is
  disabled and the carousel holds no timer (\<^verbatim>\<open>autoplayTimer\<close> is \<^verbatim>\<open>null\<close> or 0).
\<close>

theorem goTo_out_of_range:
  assumes "0 < length (cards s)" and "v < 0 \<or> int (length (cards s)) \<le> v"
  shows "currentIndex (goToTestimonial (Num v) s) = currentIndex s
       \<and> cards (goToTestimonial (Num v) s) = cards s
       \<and> dots (goToTestimonial (Num v) s) = dots s
       \<and> renders (goToTestimonial (Num v) s) = renders s
       \<and> goToTestimonial (Num v) s = resetAutoplay s
       \<and> (goToTestimonial (Num v) s = s
            \<longleftrightarrow> \<not> isAutoplay s \<and> (autoplayTimer s = None \<or> autoplayTimer s = Some 0))
       \<and> (isAutoplay s \<longrightarrow>
            autoplayTimer (goToTestimonial (Num v) s) = Some (nextId s)
          \<and> nextId s \<in> set (intervals (goToTestimonial (Num v) s)))
       \<and> (autoplayTimer s = Some h \<and> h \<noteq> 0 \<and> h \<noteq> nextId s \<longrightarrow>
            h \<notin> set (intervals (goToTestimonial (Num v) s)))"
proof -
  have g: "goToTestimonial (Num v) s = resetAutoplay s"
    using assms(2) by (simp add: goToTestimonial_def showTestimonial_out_of_range)
  show ?thesis
    unfolding g
    using resetAutoplay_unchanged_iff [of s]
    by (simp add: resetAutoplay_enabled resetAutoplay_cancels)
qed

theorem goTo_out_of_range_witness:
  "currentIndex (goToTestimonial (Num 5) (run [ClickDot 1] (demo 3))) = Num 1
   \<and> cards (goToTestimonial (Num 5) (run [ClickDot 1] (demo 3))) = [False, True, False]
   \<and> renders (goToTestimonial (Num 5) (run [ClickDot 1] (demo 3))) = [Num 0, Num 1]
   \<and> autoplayTimer (goToTestimonial (Num 5) (run [ClickDot 1] (demo 3))) = Some 3
   \<and> 3 \<in> set (intervals (goToTestimonial (Num 5) (run [ClickDot 1] (demo 3))))
   \<and> 2 \<notin> set (intervals (goToTestimonial (Num 5) (run [ClickDot 1] (demo 3))))
   \<and> goToTestimonial (Num 5) (run [ClickDot 1] (demo 3)) \<noteq> run [ClickDot 1] (demo 3)
   \<and> goToTestimonial (Num 5) (demo_off 3) = demo_off 3"
proof -
  let ?s = "run [ClickDot 1] (demo 3)"
  have s: "length (cards ?s) = 3" "currentIndex ?s = Num 1" "cards ?s = [False, True, False]"
    "renders ?s = [Num 0, Num 1]" "isAutoplay ?s" "autoplayTimer ?s = Some 2" "nextId ?s = 3"
    by code_simp+
  have o: "length (cards (demo_off 3)) = 3" "\<not> isAutoplay (demo_off 3)"
    "autoplayTimer (demo_off 3) = None"
    by code_simp+
  show ?thesis
    using goTo_out_of_range [where s = ?s and v = 5 and h = 2]
          goTo_out_of_range [where s = "demo_off 3" and v = 5] s o
    by (auto simp del: run.simps dispatch.simps)
qed

text \<open>
  C3 as stated fails: with three cards, current index 1 and autoplay running on timer 2,
  \<^verbatim>\<open>goToTestimonial(5)\<close> cancels timer 2 and starts timer 3.
\<close>

theorem goTo_out_of_range_counterexample:
  "length (cards (run [ClickDot 1] (demo 3))) = 3
   \<and> currentIndex (run [ClickDot 1] (demo 3)) = Num 1
   \<and> autoplayTimer (run [ClickDot 1] (demo 3)) = Some 2
   \<and> intervals (run [ClickDot 1] (demo 3)) = [2]
   \<and> autoplayTimer (goToTestimonial (Num 5) (run [ClickDot 1] (demo 3))) = Some 3
   \<and> intervals (goToTestimonial (Num 5) (run [ClickDot 1] (demo 3))) = [3]"
  by code_simp

section \<open>The timer callback\<close>

text \<open>
  C4, as amended. When a live autoplay timer fires, the carousel does exactly what
  \<^verbatim>\<open>nextTestimonial\<close> does: it advances the index, renders, and resets the autoplay
  timer as every \<^verbatim>\<open>nextTestimonial\<close> does. With autoplay enabled a new timer with a fresh
  handle is started and held by the carousel, and when the timer that fired is the one
  the carousel holds, it is cancelled.
\<close>

theorem timer_tick_resets:
  assumes "h \<in> set (intervals s)"
  shows "dispatch (TimerFires h) s = nextTestimonial s
       \<and> (isAutoplay s \<longrightarrow>
            autoplayTimer (dispatch (TimerFires h) s) = Some (nextId s)
          \<and> nextId s \<in> set (intervals (dispatch (TimerFires h) s)))
       \<and> (autoplayTimer s = Some h \<and> h \<noteq> 0 \<and> h \<noteq> nextId s \<longrightarrow>
            h \<notin> set (intervals (dispatch (TimerFires h) s)))"
proof -
  have d: "dispatch (TimerFires h) s = nextTestimonial s"
    using assms by (simp add: autoplayCallback_def)
  let ?t = "showTestimonial (js_rem (js_add (currentIndex s) (Num 1))
                                   (Num (int (length (cards s))))) s"
  have n: "nextTestimonial s = resetAutoplay ?t"
    by (simp add: nextTestimonial_def)
  have t: "isAutoplay ?t = isAutoplay s" "nextId ?t = nextId s"
    "autoplayTimer ?t = autoplayTimer s"
    by simp_all
  show ?thesis
    unfolding d n
    using resetAutoplay_enabled [of ?t] resetAutoplay_cancels [of ?t h]
    by (simp only: t) blast
qed

theorem timer_tick_resets_witness:
  "dispatch (TimerFires 1) (demo 3) = nextTestimonial (demo 3)
   \<and> currentIndex (dispatch (TimerFires 1) (demo 3)) = Num 1
   \<and> autoplayTimer (dispatch (TimerFires 1) (demo 3)) = Some 2
   \<and> 2 \<in> set (intervals (dispatch (TimerFires 1) (demo 3)))
   \<and> 1 \<notin> set (intervals (dispatch (TimerFires 1) (demo 3)))"
proof -
  have s: "1 \<in> set (intervals (demo 3))" "isAutoplay (demo 3)" "autoplayTimer (demo 3) = Some 1"
    "nextId (demo 3) = 2" "currentIndex (nextTestimonial (demo 3)) = Num 1"
    by code_simp+
  show ?thesis
    using timer_tick_resets [OF s(1)] s by (auto simp del: run.simps dispatch.simps)
qed

text \<open>
  C4 as stated fails: on a three-card carousel whose only timer is 1, the firing of
  timer 1 leaves timer 1 cancelled and a new timer 2 running.
\<close>

theorem timer_tick_counterexample:
  "intervals (demo 3) = [1] \<and> autoplayTimer (demo 3) = Some 1
   \<and> intervals (dispatch (TimerFires 1) (demo 3)) = [2]
   \<and> autoplayTimer (dispatch (TimerFires 1) (demo 3)) = Some 2"
  by code_simp

section \<open>A single card\<close>

lemma in_range_one: "in_range j 1 \<Longrightarrow> j = Num 0"
  by (cases j) simp_all

text \<open>
  C6, as amended. With one card the current index is 0 after every sequence of events:
  \<^verbatim>\<open>nextTestimonial\<close>, \<^verbatim>\<open>previousTestimonial\<close> and \<^verbatim>\<open>handleSwipe\<close> of any magnitude
  leave it at 0. Autoplay does start when it is enabled (the construction on a page with
  the container leaves timer 1 running), and every \<^verbatim>\<open>nextTestimonial\<close> and
  \<^verbatim>\<open>previousTestimonial\<close> renders item 0 again.
\<close>

theorem single_item:
  "currentIndex (run es (TestimonialsCarousel c p n [b] ds a)) = Num 0
   \<and> (c \<and> a \<longrightarrow> intervals (TestimonialsCarousel c p n [b] ds a) = [1]
               \<and> autoplayTimer (TestimonialsCarousel c p n [b] ds a) = Some 1)
   \<and> (length (cards s) = 1 \<and> currentIndex s = Num 0 \<longrightarrow>
        currentIndex (nextTestimonial s) = Num 0
      \<and> currentIndex (previousTestimonial s) = Num 0
      \<and> currentIndex (handleSwipe startX endX s) = Num 0
      \<and> renders (nextTestimonial s) = renders s @ [Num 0]
      \<and> renders (previousTestimonial s) = renders s @ [Num 0])"
proof (intro conjI impI)
  let ?s0 = "TestimonialsCarousel c p n [b] ds a"
  have "index_ok (run es ?s0)"
    by (simp add: index_ok_run index_ok_TestimonialsCarousel)
  moreover have "length (cards (run es ?s0)) = 1"
    by (simp add: length_cards_run length_cards_TestimonialsCarousel)
  ultimately show "currentIndex (run es ?s0) = Num 0"
    by (simp add: index_ok_def in_range_one)
next
  assume "c \<and> a"
  then show "intervals (TestimonialsCarousel c p n [b] ds a) = [1]"
    and "autoplayTimer (TestimonialsCarousel c p n [b] ds a) = Some 1"
    by (simp_all add: TestimonialsCarousel_def init_def setupEventListeners_def startAutoplay_def)
next
  assume h: "length (cards s) = 1 \<and> currentIndex s = Num 0"
  then show n: "currentIndex (nextTestimonial s) = Num 0"
    and p: "currentIndex (previousTestimonial s) = Num 0"
    and "renders (nextTestimonial s) = renders s @ [Num 0]"
    and "renders (previousTestimonial s) = renders s @ [Num 0]"
    by (simp_all add: nextTestimonial_def previousTestimonial_def showTestimonial_in_range)
  show "currentIndex (handleSwipe startX endX s) = Num 0"
    using h n p by (simp add: handleSwipe_def Let_def)
qed

theorem single_item_witness:
  "currentIndex (run [ClickNext, Swipe 300 0, TimerFires 3, ClickPrev]
                   (TestimonialsCarousel True True True [False] [False] True)) = Num 0
   \<and> intervals (TestimonialsCarousel True True True [False] [False] True) = [1]
   \<and> currentIndex (nextTestimonial (demo 1)) = Num 0
   \<and> currentIndex (handleSwipe 300 0 (demo 1)) = Num 0
   \<and> renders (nextTestimonial (demo 1)) = [Num 0, Num 0]"
proof -
  have s: "length (cards (demo 1)) = 1" "currentIndex (demo 1) = Num 0" "renders (demo 1) = [Num 0]"
    by code_simp+
  show ?thesis
    using single_item [where es = "[ClickNext, Swipe 300 0, TimerFires 3, ClickPrev]"
                         and c = True and p = True and n = True and b = False and ds = "[False]"
                         and a = True and s = "demo 1" and startX = 300 and endX = 0] s
    by (simp del: run.simps dispatch.simps)
qed

text \<open>
  C6 as stated fails: the construction of a one-card carousel with autoplay enabled
  starts timer 1, and one \<^verbatim>\<open>nextTestimonial\<close> after it makes the second render of item 0.
\<close>

theorem single_item_counterexample:
  "length (cards (demo 1)) = 1
   \<and> intervals (demo 1) = [1] \<and> autoplayTimer (demo 1) = Some 1
   \<and> renders (demo 1) = [Num 0]
   \<and> renders (nextTestimonial (demo 1)) = [Num 0, Num 0]"
  by code_simp

section \<open>Live timers\<close>

text \<open>
  C5. The claim is that at most one autoplay timer is live in every reachable state.
  On a five-card carousel with autoplay enabled, two \<^verbatim>\<open>nextTestimonial\<close> in a row leave
  one live timer, and \<^verbatim>\<open>pauseAutoplay\<close> after the construction leaves none. But
  \<^verbatim>\<open>startAutoplay\<close> does not clear the timer the carousel holds: after mouse enter, a
  click on next and mouse leave, timers 2 and 3 are both live, the carousel holds only 3,
  and a later \<^verbatim>\<open>pauseAutoplay\<close> leaves timer 2 running.
\<close>

theorem autoplay_timer_leak:
  "intervals (demo 5) = [1]
   \<and> intervals (run [ClickNext, ClickNext] (demo 5)) = [3]
   \<and> intervals (run [MouseEnter] (demo 5)) = []
   \<and> intervals (run [MouseEnter, ClickNext, MouseLeave] (demo 5)) = [2, 3]
   \<and> autoplayTimer (run [MouseEnter, ClickNext, MouseLeave] (demo 5)) = Some 3
   \<and> intervals (run [MouseEnter, ClickNext, MouseLeave, MouseEnter] (demo 5)) = [2]"
  by code_simp

section \<open>No cards\<close>

text \<open>
  C7. The claim is that a carousel with no cards is inert. Its construction is: \<^verbatim>\<open>init\<close>
  returns at once, no listener is attached, no timer is created, nothing is rendered.
  But \<^verbatim>\<open>nextTestimonial\<close> and \<^verbatim>\<open>goToTestimonial\<close> have no such guard: once the
  instance is on the window, \<^verbatim>\<open>changeTestimonial(1)\<close> computes the index \<open>1 % 0 = NaN\<close>,
  which passes the range guard of \<^verbatim>\<open>showTestimonial\<close>, becomes the current index, and a
  timer is started; \<^verbatim>\<open>currentTestimonial(1)\<close> starts a timer as well.
\<close>

theorem empty_carousel_not_inert:
  "demo 0 = \<lparr>container = True, prevBtn = True, nextBtn = True, cards = [], dots = [],
              currentIndex = Num 0, isAutoplay = True, autoplayTimer = None,
              listening = False, intervals = [], nextId = 1,
              windowTestimonialsCarousel = False, renders = []\<rparr>
   \<and> currentIndex (run [ExposeGlobal, InlineChange 1] (demo 0)) = NaN
   \<and> renders (run [ExposeGlobal, InlineChange 1] (demo 0)) = [NaN]
   \<and> intervals (run [ExposeGlobal, InlineChange 1] (demo 0)) = [1]
   \<and> autoplayTimer (run [ExposeGlobal, InlineChange 1] (demo 0)) = Some 1
   \<and> intervals (run [ExposeGlobal, InlineCurrent 1] (demo 0)) = [1]"
  by code_simp

end
